theory Spec2Isabelle
  imports Complex_Main "HOL-Library.Word" "HOL-Library.Log_Nat"
begin

unbundle bit_operations_syntax

section \<open>Console colours\<close>

text \<open>
  The character attribute bits of the Windows console API, as \<^verbatim>\<open>Windows.h\<close> defines
  them. The enumeration \<^verbatim>\<open>win_console_colors\<close> of \<^verbatim>\<open>logger.hpp\<close> has
  \<^verbatim>\<open>std::uint8_t\<close> as its underlying type and combines these bits.
\<close>

definition FOREGROUND_BLUE :: "8 word" where
  "FOREGROUND_BLUE = 0x1"

definition FOREGROUND_GREEN :: "8 word" where
  "FOREGROUND_GREEN = 0x2"

definition FOREGROUND_RED :: "8 word" where
  "FOREGROUND_RED = 0x4"

definition FOREGROUND_INTENSITY :: "8 word" where
  "FOREGROUND_INTENSITY = 0x8"

datatype win_console_colors =
    wcon_black
  | wcon_gray
  | wcon_white
  | wcon_red
  | wcon_green
  | wcon_blue
  | wcon_cyan
  | wcon_magenta
  | wcon_yellow
  | wcon_dark_gray
  | wcon_dark_red
  | wcon_dark_green
  | wcon_dark_blue
  | wcon_dark_cyan
  | wcon_dark_magenta
  | wcon_dark_yellow

text \<open>The value of each enumerator.\<close>

primrec color_value :: "win_console_colors \<Rightarrow> 8 word" where
  "color_value wcon_black = 0"
| "color_value wcon_gray = FOREGROUND_RED OR FOREGROUND_GREEN OR FOREGROUND_BLUE"
| "color_value wcon_white =
     FOREGROUND_INTENSITY OR FOREGROUND_RED OR FOREGROUND_GREEN OR FOREGROUND_BLUE"
| "color_value wcon_red = FOREGROUND_INTENSITY OR FOREGROUND_RED"
| "color_value wcon_green = FOREGROUND_INTENSITY OR FOREGROUND_GREEN"
| "color_value wcon_blue = FOREGROUND_INTENSITY OR FOREGROUND_BLUE"
| "color_value wcon_cyan = FOREGROUND_INTENSITY OR FOREGROUND_GREEN OR FOREGROUND_BLUE"
| "color_value wcon_magenta = FOREGROUND_INTENSITY OR FOREGROUND_RED OR FOREGROUND_BLUE"
| "color_value wcon_yellow = FOREGROUND_INTENSITY OR FOREGROUND_RED OR FOREGROUND_GREEN"
| "color_value wcon_dark_gray = FOREGROUND_INTENSITY"
| "color_value wcon_dark_red = FOREGROUND_RED"
| "color_value wcon_dark_green = FOREGROUND_GREEN"
| "color_value wcon_dark_blue = FOREGROUND_BLUE"
| "color_value wcon_dark_cyan = FOREGROUND_GREEN OR FOREGROUND_BLUE"
| "color_value wcon_dark_magenta = FOREGROUND_RED OR FOREGROUND_BLUE"
| "color_value wcon_dark_yellow = FOREGROUND_RED OR FOREGROUND_GREEN"


section \<open>The process-wide state\<close>

text \<open>
  Everything the functions of \<^verbatim>\<open>impl::logger\<close> read or change, seen from one thread:
  \<^item> \<open>handle_valid\<close>: whether \<^verbatim>\<open>GetStdHandle( STD_OUTPUT_HANDLE )\<close> yields a handle
    other than \<^verbatim>\<open>INVALID_HANDLE_VALUE\<close>, the handle of a console (a fact of the
    environment);
  \<^item> \<open>console_attr\<close>: the text attribute of the console (a \<^verbatim>\<open>WORD\<close>), as
    \<^verbatim>\<open>SetConsoleTextAttribute\<close> left it;
  \<^item> \<open>console_out\<close>: what \<^verbatim>\<open>printf\<close> has written, one entry for each call, with
    the attribute that was in effect during the call;
  \<^item> \<open>logger_sync\<close>: whether the mutex is locked;
  \<^item> \<open>logger_padding\<close>: the atomic 8-bit padding counter.
\<close>

record world =
  handle_valid :: bool
  console_attr :: "16 word"
  console_out :: "(16 word \<times> string) list"
  logger_sync :: bool
  logger_padding :: "8 word"

text \<open>
  A call either returns or stops in a fault, in the state reached so far.
  \<^verbatim>\<open>__debugbreak()\<close> stops execution with \<open>DebugBreak\<close>; locking the mutex that
  the only thread already holds never returns (\<open>Deadlock\<close>); \<open>Undefined\<close> stands for
  behaviour the C and C++ standards leave undefined.
\<close>

datatype fault = DebugBreak | Deadlock | Undefined

type_synonym 'a outcome = "(fault \<times> world) + ('a \<times> world)"


section \<open>Colour selection\<close>

definition setup_color :: "win_console_colors \<Rightarrow> world \<Rightarrow> unit outcome" where
  "setup_color clr w =
     (if \<not> handle_valid w then Inl (DebugBreak, w)
      else Inr ((), w\<lparr>console_attr := ucast (color_value clr)\<rparr>))"

definition reset_color :: "world \<Rightarrow> unit outcome" where
  "reset_color w = setup_color wcon_gray w"


section \<open>Scoped padding\<close>

record scopped_padding_extender =
  restore_pad :: "8 word"

text \<open>
  The constructor reads the counter into \<open>restore_pad\<close> and then adds \<open>current_pad\<close>
  to the counter (\<^verbatim>\<open>fetch_add\<close> on an 8-bit atomic wraps around).
\<close>

definition scopped_padding_extender_ctor ::
  "8 word \<Rightarrow> world \<Rightarrow> scopped_padding_extender \<times> world" where
  "scopped_padding_extender_ctor current_pad w =
     (\<lparr>restore_pad = logger_padding w\<rparr>,
      w\<lparr>logger_padding := logger_padding w + current_pad\<rparr>)"

definition scopped_padding_extender_dtor ::
  "scopped_padding_extender \<Rightarrow> world \<Rightarrow> world" where
  "scopped_padding_extender_dtor g w = w\<lparr>logger_padding := restore_pad g\<rparr>"



section \<open>Formatted output\<close>

text \<open>
  \<^verbatim>\<open>printf\<close> belongs to the C library. The conversions this program itself asks for
  are spelt out here: ordinary characters, \<^verbatim>\<open>%%\<close>, and \<^verbatim>\<open>%d\<close>, \<^verbatim>\<open>%c\<close>, \<^verbatim>\<open>%s\<close>
  with an optional width \<^verbatim>\<open>*\<close>, \<^verbatim>\<open>%s\<close> also with an optional precision \<^verbatim>\<open>.*\<close>.
  Every other conversion specification a caller's format may hold (a numeric width or
  precision, flags, length modifiers, \<^verbatim>\<open>%x\<close>, \<^verbatim>\<open>%u\<close>, \<^verbatim>\<open>%f\<close>, \<^verbatim>\<open>%p\<close>, ...) is
  left to the library, which is a parameter of the model (\<open>c_library\<close> below).

  An argument is an \<^verbatim>\<open>int\<close>, a NUL-terminated string (\<open>AStr\<close>, its characters before
  the NUL), a pointer to a character array that has no terminator (\<open>ABuf\<close>, the array),
  or a value of any other type (\<open>AOther\<close>), which only the library's own conversions
  read.
\<close>

datatype 'a printf_arg = AInt int | AStr string | ABuf string | AOther 'a

text \<open>
  The library's part: given the format after a \<^verbatim>\<open>%\<close> and the arguments not yet
  consumed, the number of characters of the format that the conversion specification
  takes, the text written for it and the arguments left; \<open>None\<close> where the standard
  leaves the call undefined.
\<close>

type_synonym 'a c_library =
  "string \<Rightarrow> 'a printf_arg list \<Rightarrow> (nat \<times> string \<times> 'a printf_arg list) option"

definition CR :: char where
  "CR = CHR 0x0D"

definition LF :: char where
  "LF = CHR 0x0A"

definition spaces :: "nat \<Rightarrow> string" where
  "spaces n = replicate n (CHR '' '')"

fun decimal :: "nat \<Rightarrow> string" where
  "decimal n =
     (if n < 10 then [''0123456789'' ! n]
      else decimal (n div 10) @ [''0123456789'' ! (n mod 10)])"

declare decimal.simps [simp del]

record directive =
  width_star :: bool
  precision_star :: bool
  conversion :: char

text \<open>The scanner after a \<^verbatim>\<open>%\<close>: width, precision, conversion character.\<close>

definition parse_conversion ::
  "bool \<Rightarrow> bool \<Rightarrow> string \<Rightarrow> (directive \<times> string) option" where
  "parse_conversion ws ps fmt =
     (case fmt of
        [] \<Rightarrow> None
      | c # r \<Rightarrow> Some (\<lparr>width_star = ws, precision_star = ps, conversion = c\<rparr>, r))"

definition parse_precision :: "bool \<Rightarrow> string \<Rightarrow> (directive \<times> string) option" where
  "parse_precision ws fmt =
     (case fmt of
        [] \<Rightarrow> None
      | c # r \<Rightarrow>
          if c = CHR ''.'' then
            (case r of
               [] \<Rightarrow> None
             | d # r' \<Rightarrow> if d = CHR ''*'' then parse_conversion ws True r' else None)
          else parse_conversion ws False fmt)"

definition parse_directive :: "string \<Rightarrow> (directive \<times> string) option" where
  "parse_directive fmt =
     (case fmt of
        [] \<Rightarrow> None
      | c # r \<Rightarrow> if c = CHR ''*'' then parse_precision True r else parse_precision False fmt)"

text \<open>The conversion specifications spelt out here; the others are the library's.\<close>

definition spelt_out :: "directive \<Rightarrow> bool" where
  "spelt_out d \<longleftrightarrow>
     (if conversion d = CHR ''%'' then \<not> width_star d \<and> \<not> precision_star d
      else if conversion d = CHR ''s'' then True
      else (conversion d = CHR ''d'' \<or> conversion d = CHR ''c'') \<and> \<not> precision_star d)"

text \<open>
  A field narrower than the width is filled with spaces, on the left; a negative width
  given through \<^verbatim>\<open>*\<close> is a \<^verbatim>\<open>-\<close> flag with a positive width (fill on the right).
\<close>

definition justify :: "int option \<Rightarrow> string \<Rightarrow> string" where
  "justify width text =
     (case width of
        None \<Rightarrow> text
      | Some n \<Rightarrow>
          if 0 \<le> n then spaces (nat n - length text) @ text
          else text @ spaces (nat (- n) - length text))"

definition convert_d :: "int \<Rightarrow> string" where
  "convert_d v = (if v < 0 then CHR ''-'' # decimal (nat (- v)) else decimal (nat v))"

text \<open>
  \<^verbatim>\<open>%s\<close> writes the characters up to the terminator, and no more than the precision
  when there is one (a negative precision counts as none). Of an array without a
  terminator it may read only as many characters as the array has: anything else is
  undefined (\<open>None\<close>).
\<close>

definition convert_s :: "int option \<Rightarrow> 'a printf_arg \<Rightarrow> string option" where
  "convert_s precision a =
     (case a of
        AStr s \<Rightarrow>
          (case precision of
             None \<Rightarrow> Some s
           | Some p \<Rightarrow> Some (if 0 \<le> p then take (nat p) s else s))
      | ABuf b \<Rightarrow>
          (case precision of
             None \<Rightarrow> None
           | Some p \<Rightarrow> if 0 \<le> p \<and> nat p \<le> length b then Some (take (nat p) b) else None)
      | _ \<Rightarrow> None)"

definition take_int ::
  "bool \<Rightarrow> 'a printf_arg list \<Rightarrow> (int option \<times> 'a printf_arg list) option" where
  "take_int star args =
     (if \<not> star then Some (None, args)
      else case args of
             AInt n # rest \<Rightarrow> Some (Some n, rest)
           | _ \<Rightarrow> None)"

text \<open>
  One conversion specification of those spelt out: the text it produces and the
  arguments left over. \<open>None\<close> is a missing argument or one of the wrong type, which
  the standard leaves undefined.
\<close>

definition convert ::
  "directive \<Rightarrow> 'a printf_arg list \<Rightarrow> (string \<times> 'a printf_arg list) option" where
  "convert d args =
     (if conversion d = CHR ''%'' then
        (if width_star d \<or> precision_star d then None else Some (''%'', args))
      else
        case take_int (width_star d) args of
          None \<Rightarrow> None
        | Some (width, args1) \<Rightarrow>
            (case take_int (precision_star d) args1 of
               None \<Rightarrow> None
             | Some (precision, args2) \<Rightarrow>
                 (case args2 of
                    [] \<Rightarrow> None
                  | a # args3 \<Rightarrow>
                      if conversion d = CHR ''s'' then
                        map_option (\<lambda>text. (justify width text, args3)) (convert_s precision a)
                      else if precision_star d then None
                      else
                        (case a of
                           AInt v \<Rightarrow>
                             if conversion d = CHR ''d'' then
                               Some (justify width (convert_d v), args3)
                             else if conversion d = CHR ''c'' then
                               Some (justify width [char_of v], args3)
                             else None
                         | _ \<Rightarrow> None))))"

text \<open>
  What follows a \<^verbatim>\<open>%\<close>: the text written, the rest of the format and the arguments
  left. A specification that is not spelt out here goes to the library.
\<close>

definition conversion_specification ::
  "'a c_library \<Rightarrow> string \<Rightarrow> 'a printf_arg list
     \<Rightarrow> (string \<times> string \<times> 'a printf_arg list) option" where
  "conversion_specification lib fmt args =
     (case (case parse_directive fmt of
              None \<Rightarrow> None
            | Some (d, rest) \<Rightarrow> if spelt_out d then Some (d, rest) else None) of
        Some (d, rest) \<Rightarrow> map_option (\<lambda>(text, args'). (text, rest, args')) (convert d args)
      | None \<Rightarrow> map_option (\<lambda>(n, text, args'). (text, drop n fmt, args')) (lib fmt args))"

lemma conversion_specification_shorter:
  "conversion_specification lib fmt args = Some (text, rest, args') \<Longrightarrow> length rest \<le> length fmt"
  by (auto simp: conversion_specification_def parse_directive_def parse_precision_def
        parse_conversion_def split: if_splits list.splits option.splits)

text \<open>The text a format and its arguments produce. Arguments left over are ignored.\<close>

function printf_render :: "'a c_library \<Rightarrow> string \<Rightarrow> 'a printf_arg list \<Rightarrow> string option" where
  "printf_render lib [] args = Some []"
| "printf_render lib (c # fmt) args =
     (if c \<noteq> CHR ''%'' then map_option ((#) c) (printf_render lib fmt args)
      else
        case conversion_specification lib fmt args of
          None \<Rightarrow> None
        | Some (text, rest, args') \<Rightarrow> map_option ((@) text) (printf_render lib rest args'))"
  by pat_completeness auto
termination
  by (relation "measure (\<lambda>(lib, fmt, args). length fmt)")
     (auto dest: conversion_specification_shorter)

declare printf_render.simps(2) [simp del]

text \<open>
  A small part of the library, for the examples: \<^verbatim>\<open>%x\<close> of a non-negative \<^verbatim>\<open>int\<close>,
  and \<^verbatim>\<open>%d\<close> with a decimal field width in the format (no flag: the width does not
  start with \<^verbatim>\<open>0\<close>).
\<close>

fun hexadecimal :: "nat \<Rightarrow> string" where
  "hexadecimal n =
     (if n < 16 then [''0123456789abcdef'' ! n]
      else hexadecimal (n div 16) @ [''0123456789abcdef'' ! (n mod 16)])"

declare hexadecimal.simps [simp del]

definition is_digit :: "char \<Rightarrow> bool" where
  "is_digit c \<longleftrightarrow> c \<in> set ''0123456789''"

definition number :: "string \<Rightarrow> nat" where
  "number ds = foldl (\<lambda>n c. 10 * n + (of_char c - of_char (CHR ''0''))) 0 ds"

definition sample_library :: "unit c_library" where
  "sample_library fmt args =
     (let ds = takeWhile is_digit fmt
      in case (dropWhile is_digit fmt, args) of
           (c # r, AInt v # args') \<Rightarrow>
             if c = CHR ''d'' \<and> ds \<noteq> [] \<and> hd ds \<noteq> CHR ''0'' then
               Some (length ds + 1, justify (Some (int (number ds))) (convert_d v), args')
             else if c = CHR ''x'' \<and> ds = [] \<and> 0 \<le> v then
               Some (1, hexadecimal (nat v), args')
             else None
         | _ \<Rightarrow> None)"

text \<open>
  \<^verbatim>\<open>printf\<close> returns the number of characters written as an \<^verbatim>\<open>int\<close>, and a negative
  value when that number does not fit.
\<close>

definition INT_MAX :: int where
  "INT_MAX = 2147483647"

definition INT_MIN :: int where
  "INT_MIN = - 2147483648"

definition printf_ret :: "string \<Rightarrow> int" where
  "printf_ret text = (if int (length text) \<le> INT_MAX then int (length text) else - 1)"

definition printf ::
  "'a c_library \<Rightarrow> string \<Rightarrow> 'a printf_arg list \<Rightarrow> world \<Rightarrow> int outcome" where
  "printf lib format args w =
     (case printf_render lib format args of
        None \<Rightarrow> Inl (Undefined, w)
      | Some text \<Rightarrow>
          Inr (printf_ret text, w\<lparr>console_out := console_out w @ [(console_attr w, text)]\<rparr>))"


section \<open>The formatted logger\<close>




section \<open>The spin waiter\<close>

text \<open>
  A time point is a count of nanoseconds, the period of the clock. The two readings of
  the clock that \<^verbatim>\<open>update\<close> takes are its arguments \<open>now1\<close> and \<open>now2\<close>.
\<close>

record spin_waiter =
  sequence :: "8 word"
  last_update_time :: int
  should_clear_on_release :: bool

definition animation :: string where
  "animation = [CHR 0x5C, CHR ''|'', CHR ''/'', CHR 0xC4]"

definition update_rate_ms :: int where
  "update_rate_ms = 100"

text \<open>\<^verbatim>\<open>duration_cast\<close> to milliseconds divides by 1000000 and truncates towards zero.\<close>

definition duration_cast_ms :: "int \<Rightarrow> int" where
  "duration_cast_ms ns = sgn ns * (\<bar>ns\<bar> div 1000000)"

definition spin_waiter_ctor :: "bool \<Rightarrow> int \<Rightarrow> world \<Rightarrow> spin_waiter outcome" where
  "spin_waiter_ctor t_should_clear_on_release now w =
     (if logger_sync w then Inl (Deadlock, w)
      else Inr (\<lparr>sequence = 0, last_update_time = now,
                  should_clear_on_release = t_should_clear_on_release\<rparr>,
                w\<lparr>logger_sync := True\<rparr>))"

definition spin_waiter_update ::
  "'a c_library \<Rightarrow> spin_waiter \<Rightarrow> int \<Rightarrow> int \<Rightarrow> world \<Rightarrow> spin_waiter outcome" where
  "spin_waiter_update lib sw now1 now2 w =
     (let delta = duration_cast_ms (now1 - last_update_time sw)
      in if delta < update_rate_ms then Inr (sw, w)
         else
           let sequence' = (word_of_nat ((unat (sequence sw) + 1) mod length animation) :: 8 word)
           in case printf lib (''%*s%c'' @ [CR])
                     [AInt (uint (logger_padding w)), AStr [],
                      AInt (of_char (animation ! unat sequence'))] w of
                Inl f \<Rightarrow> Inl f
              | Inr (_, w1) \<Rightarrow>
                  Inr (sw\<lparr>sequence := sequence', last_update_time := now2\<rparr>, w1))"

definition spin_waiter_dtor :: "'a c_library \<Rightarrow> spin_waiter \<Rightarrow> world \<Rightarrow> unit outcome" where
  "spin_waiter_dtor lib sw w =
     (case printf lib (if should_clear_on_release sw then [CR] else [LF]) [] w of
        Inl f \<Rightarrow> Inl f
      | Inr (_, w1) \<Rightarrow> Inr ((), w1\<lparr>logger_sync := False\<rparr>))"

text \<open>Successive calls of \<^verbatim>\<open>update\<close>, one for each pair of clock readings.\<close>

fun spin_waiter_updates ::
  "'a c_library \<Rightarrow> spin_waiter \<Rightarrow> (int \<times> int) list \<Rightarrow> world \<Rightarrow> spin_waiter outcome" where
  "spin_waiter_updates lib sw [] w = Inr (sw, w)"
| "spin_waiter_updates lib sw (t # ts) w =
     (case spin_waiter_update lib sw (fst t) (snd t) w of
        Inl f \<Rightarrow> Inl f
      | Inr (sw1, w1) \<Rightarrow> spin_waiter_updates lib sw1 ts w1)"


text \<open>What one redraw writes when the sequence index becomes \<open>k mod 4\<close>.\<close>

definition spin_frame :: "world \<Rightarrow> nat \<Rightarrow> 16 word \<times> string" where
  "spin_frame w k =
     (console_attr w, spaces (unat (logger_padding w)) @ [animation ! (k mod 4), CR])"

section \<open>Single-precision arithmetic\<close>

text \<open>
  A \<^verbatim>\<open>float\<close> is an IEEE 754 binary32 number: every operation gives the exact result
  rounded to the nearest number with a significand of 24 bits, ties to the even
  significand. \<open>binade a\<close> is the exponent \<open>e\<close> with \<open>2 powi e \<le> a < 2 powi (e + 1)\<close>
  for a positive \<open>a\<close>; the numbers of that binade are the multiples of
  \<open>ulp a\<close>, which is \<open>2 powi (e - 23)\<close>. The exponent is not bounded here: the
  progress bar divides and multiplies numbers converted from 32-bit integers, and these
  stay inside the normal range of binary32 (\<open>update_arithmetic_normal\<close> below).
\<close>

definition round_half_even :: "rat \<Rightarrow> int" where
  "round_half_even q =
     (let f = \<lfloor>q\<rfloor>; d = q - of_int f
      in if d < 1 / 2 then f else if 1 / 2 < d then f + 1 else if even f then f else f + 1)"

definition binade :: "rat \<Rightarrow> int" where
  "binade a = (if 1 \<le> a then bitlen \<lfloor>a\<rfloor> - 1 else - bitlen (\<lceil>1 / a\<rceil> - 1))"

definition ulp :: "rat \<Rightarrow> rat" where
  "ulp a = 2 powi (binade a - 23)"

definition float_round :: "rat \<Rightarrow> rat" where
  "float_round x =
     (if x = 0 then 0
      else sgn x * (of_int (round_half_even (\<bar>x\<bar> / ulp \<bar>x\<bar>)) * ulp \<bar>x\<bar>))"

text \<open>
  The exact results that binary32 rounds as \<open>float_round\<close> does: zero, and the numbers
  whose magnitude is at least the smallest normal number and at most \<open>2 powi 127\<close>.
\<close>

definition binary32_normal :: "rat \<Rightarrow> bool" where
  "binary32_normal x \<longleftrightarrow> x = 0 \<or> 2 powi (- 126) \<le> \<bar>x\<bar> \<and> \<bar>x\<bar> \<le> 2 powi 127"

text \<open>
  \<open>NonFinite\<close> is an infinity or a NaN. Dividing by zero gives one, an operation on one
  gives one again (as a divisor none occurs: the divisor is converted from an integer),
  and converting one to \<^verbatim>\<open>int\<close> is undefined, as is converting a number whose
  truncation is not an \<^verbatim>\<open>int\<close>.
\<close>

datatype float = Finite rat | NonFinite

definition float_of_int :: "int \<Rightarrow> float" where
  "float_of_int n = Finite (float_round (of_int n))"

fun float_divide :: "float \<Rightarrow> float \<Rightarrow> float" where
  "float_divide (Finite a) (Finite b) =
     (if b = 0 then NonFinite else Finite (float_round (a / b)))"
| "float_divide NonFinite (Finite b) = NonFinite"
| "float_divide a NonFinite = NonFinite"

fun float_times :: "float \<Rightarrow> float \<Rightarrow> float" where
  "float_times (Finite a) (Finite b) = Finite (float_round (a * b))"
| "float_times NonFinite b = NonFinite"
| "float_times a NonFinite = NonFinite"

definition float_truncate :: "rat \<Rightarrow> int" where
  "float_truncate a = (if 0 \<le> a then \<lfloor>a\<rfloor> else \<lceil>a\<rceil>)"

fun int_of_float :: "float \<Rightarrow> int option" where
  "int_of_float (Finite a) =
     (if INT_MIN \<le> float_truncate a \<and> float_truncate a \<le> INT_MAX then Some (float_truncate a) else None)"
| "int_of_float NonFinite = None"


section \<open>The loading waiter\<close>

text \<open>
  \<^verbatim>\<open>loading_waiter<T>\<close> at \<^verbatim>\<open>T = int\<close>: values are 32-bit words read as signed.
\<close>

record loading_waiter =
  last_drawn_count :: "32 word"
  max_value :: "32 word"
  should_clear_on_release :: bool

definition create_full_filled_array :: "nat \<Rightarrow> 'a \<Rightarrow> 'a list" where
  "create_full_filled_array sz value = replicate sz value"

definition full_line :: string where
  "full_line = create_full_filled_array 10 (CHR 0xFE)"

text \<open>\<^verbatim>\<open>std::min( a, b )\<close> is \<^verbatim>\<open>b < a ? b : a\<close>, here on signed integers.\<close>

definition std_min :: "32 word \<Rightarrow> 32 word \<Rightarrow> 32 word" where
  "std_min a b = (if b <s a then b else a)"

definition loading_waiter_ctor :: "32 word \<Rightarrow> bool \<Rightarrow> world \<Rightarrow> loading_waiter outcome" where
  "loading_waiter_ctor t_max_value t_should_clear_on_release w =
     (if logger_sync w then Inl (Deadlock, w)
      else Inr (\<lparr>last_drawn_count = 0, max_value = t_max_value,
                  should_clear_on_release = t_should_clear_on_release\<rparr>,
                w\<lparr>logger_sync := True\<rparr>))"

text \<open>
  The numbers \<^verbatim>\<open>update\<close> computes before it prints: \<open>percentage\<close>, a
  \<^verbatim>\<open>float\<close>, then \<open>percent\<close>, \<open>count_to_draw\<close> and \<open>count_to_skip\<close>. The last
  is computed in \<^verbatim>\<open>std::size_t\<close> and converted to \<^verbatim>\<open>int\<close>, which keeps its low 32
  bits.
\<close>

definition percentage :: "32 word \<Rightarrow> 32 word \<Rightarrow> float" where
  "percentage max_val current_value =
     float_divide (float_of_int (sint (std_min current_value max_val)))
                  (float_of_int (sint max_val))"

definition update_counts :: "32 word \<Rightarrow> 32 word \<Rightarrow> (int \<times> int \<times> int) option" where
  "update_counts max_val current_value =
     (let len = int (length full_line)
      in case int_of_float (float_times (percentage max_val current_value) (float_of_int 100)) of
           None \<Rightarrow> None
         | Some percent \<Rightarrow>
             (case int_of_float
                     (float_times (percentage max_val current_value) (float_of_int len)) of
                None \<Rightarrow> None
              | Some count_to_draw \<Rightarrow>
                  Some (percent, count_to_draw,
                        sint (word_of_int (len - count_to_draw) :: 32 word))))"

text \<open>The value of \<open>percentage\<close> when the maximum is not zero (see \<open>percentage_ratio\<close>).\<close>

definition ratio :: "32 word \<Rightarrow> 32 word \<Rightarrow> rat" where
  "ratio max_val current_value =
     float_round (float_round (of_int (min (sint current_value) (sint max_val)))
                    / float_round (of_int (sint max_val)))"

definition loading_waiter_update ::
  "'a c_library \<Rightarrow> loading_waiter \<Rightarrow> 32 word \<Rightarrow> world \<Rightarrow> loading_waiter outcome" where
  "loading_waiter_update lib lw current_value w =
     (case update_counts (max_value lw) current_value of
        None \<Rightarrow> Inl (Undefined, w)
      | Some (percent, count_to_draw, count_to_skip) \<Rightarrow>
          (case printf lib (CR # ''%*s%d%%[%.*s%*s]'')
                  [AInt (uint (logger_padding w)), AStr [], AInt percent,
                   AInt count_to_draw, ABuf full_line, AInt count_to_skip, AStr []] w of
             Inl f \<Rightarrow> Inl f
           | Inr (n, w1) \<Rightarrow> Inr (lw\<lparr>last_drawn_count := word_of_int n\<rparr>, w1)))"

text \<open>
  The destructor passes the unsigned \<open>last_drawn_count\<close> where \<^verbatim>\<open>printf\<close> reads an
  \<^verbatim>\<open>int\<close>: the same 32 bits, read as signed.
\<close>

definition loading_waiter_dtor :: "'a c_library \<Rightarrow> loading_waiter \<Rightarrow> world \<Rightarrow> unit outcome" where
  "loading_waiter_dtor lib lw w =
     (case (if should_clear_on_release lw
            then printf lib (''%*s'' @ [CR]) [AInt (sint (last_drawn_count lw)), AStr []] w
            else printf lib [LF] [] w) of
        Inl f \<Rightarrow> Inl f
      | Inr (_, w1) \<Rightarrow> Inr ((), w1\<lparr>logger_sync := False\<rparr>))"

text \<open>The state of a process that has not yet logged anything, on a console.\<close>

definition initial_world :: world where
  "initial_world =
     \<lparr>handle_valid = True, console_attr = 7, console_out = [], logger_sync = False,
      logger_padding = 0\<rparr>"

text \<open>
  Two notions used to state properties of callers: the quotient of two \<^verbatim>\<open>int\<close>s
  as C++ computes it (truncated towards zero), and the width a written line takes on the
  screen (a carriage return takes none).
\<close>

definition int_divide :: "32 word \<Rightarrow> 32 word \<Rightarrow> 32 word" where
  "int_divide a b = word_of_int (sgn (sint a) * sgn (sint b) * (\<bar>sint a\<bar> div \<bar>sint b\<bar>))"

definition visible_width :: "string \<Rightarrow> nat" where
  "visible_width line = length (filter (\<lambda>c. c \<noteq> CR) line)"


section \<open>Nested padding scopes\<close>

text \<open>
  Claim C1. Two guards with increments \<open>p1\<close> and \<open>p2\<close>, entered one inside the other
  and left in the reverse order, leave the padding counter (indeed the whole state) as it
  was before the first was entered. Inside both scopes the counter is the old value plus
  \<open>p1 + p2\<close> (modulo 256). A destructor stores the value its guard captured whatever
  the counter is at that moment: it overwrites, it does not subtract.
\<close>

theorem scopped_padding_extender_nested_restores:
  "(case scopped_padding_extender_ctor p1 w of (g1, w1) \<Rightarrow>
      case scopped_padding_extender_ctor p2 w1 of (g2, w2) \<Rightarrow>
        logger_padding w2 = logger_padding w + p1 + p2
        \<and> restore_pad g1 = logger_padding w
        \<and> restore_pad g2 = logger_padding w + p1
        \<and> logger_padding (scopped_padding_extender_dtor g2 w2) = logger_padding w + p1
        \<and> scopped_padding_extender_dtor g1 (scopped_padding_extender_dtor g2 w2) = w)
   \<and> logger_padding (scopped_padding_extender_dtor g w') = restore_pad g"
  by (simp add: scopped_padding_extender_ctor_def scopped_padding_extender_dtor_def)


section \<open>Colour selection: set, then reset\<close>

text \<open>
  Claim C8, as stated, fails: \<open>reset_color\<close> does not restore the attribute that was in
  effect before \<open>setup_color\<close>, it sets gray. On a console whose attribute is 12
  (red), selecting green and resetting leaves 7 (gray), not 12.
\<close>

theorem reset_color_after_setup_color_counterexample:
  "setup_color wcon_green (initial_world\<lparr>console_attr := 12\<rparr>)
     = Inr ((), initial_world\<lparr>console_attr := 10\<rparr>)
   \<and> reset_color (initial_world\<lparr>console_attr := 10\<rparr>)
     = Inr ((), initial_world\<lparr>console_attr := 7\<rparr>)
   \<and> console_attr (initial_world\<lparr>console_attr := 7\<rparr>)
     \<noteq> console_attr (initial_world\<lparr>console_attr := 12\<rparr>)"
  by (simp add: setup_color_def reset_color_def initial_world_def
        FOREGROUND_RED_def FOREGROUND_GREEN_def FOREGROUND_BLUE_def FOREGROUND_INTENSITY_def)

text \<open>
  Claim C8, amended. With a valid output handle, \<open>setup_color c\<close> followed by
  \<open>reset_color\<close> leaves the console attribute at gray (7) for every colour \<open>c\<close> and
  every prior state, and changes nothing else; \<open>reset_color\<close> is \<open>setup_color\<close> with
  \<open>wcon_gray\<close>.
\<close>

theorem reset_color_after_setup_color_gives_gray:
  assumes "handle_valid w"
  shows "setup_color c w = Inr ((), w\<lparr>console_attr := ucast (color_value c)\<rparr>)
    \<and> reset_color (w\<lparr>console_attr := ucast (color_value c)\<rparr>)
        = Inr ((), w\<lparr>console_attr := ucast (color_value wcon_gray)\<rparr>)
    \<and> (ucast (color_value wcon_gray) :: 16 word) = 7
    \<and> reset_color w = setup_color wcon_gray w"
  using assms by (simp add: setup_color_def reset_color_def
        FOREGROUND_RED_def FOREGROUND_GREEN_def FOREGROUND_BLUE_def)

theorem reset_color_after_setup_color_gives_gray_witness:
  "handle_valid (initial_world\<lparr>console_attr := 12\<rparr>)
   \<and> setup_color wcon_green (initial_world\<lparr>console_attr := 12\<rparr>)
       = Inr ((), initial_world\<lparr>console_attr := 10\<rparr>)
   \<and> reset_color (initial_world\<lparr>console_attr := 10\<rparr>)
       = Inr ((), initial_world\<lparr>console_attr := 7\<rparr>)"
  using reset_color_after_setup_color_gives_gray
          [of "initial_world\<lparr>console_attr := 12\<rparr>" wcon_green]
  by (simp add: initial_world_def FOREGROUND_GREEN_def FOREGROUND_INTENSITY_def)


section \<open>Formatted output: the padding directive\<close>

lemma length_spaces [simp]: "length (spaces n) = n"
  by (simp add: spaces_def)

lemma spaces_4: "spaces 4 = ''    ''"
  by (simp add: spaces_def eval_nat_numeral)

lemma spaces_0 [simp]: "spaces 0 = []"
  by (simp add: spaces_def)

lemma printf_render_text:
  "c \<noteq> CHR ''%'' \<Longrightarrow>
     printf_render lib (c # fmt) args = map_option ((#) c) (printf_render lib fmt args)"
  by (simp add: printf_render.simps(2) conversion_specification_def spelt_out_def)

text \<open>
  The directive \<^verbatim>\<open>%*s\<close> in front of a format takes the first two arguments and leaves
  the rest of the format and of the arguments as they are.
\<close>

lemma printf_render_width_string:
  "printf_render lib (CHR ''%'' # CHR ''*'' # CHR ''s'' # fmt) (AInt n # AStr s # args) =
     map_option ((@) (justify (Some n) s)) (printf_render lib fmt args)"
  by (simp add: printf_render.simps(2) conversion_specification_def spelt_out_def parse_directive_def parse_precision_def
        parse_conversion_def convert_def take_int_def convert_s_def)

lemma justify_padding: "justify (Some (uint p)) [] = spaces (unat p)"
  by (simp add: justify_def)





section \<open>The formatted logger\<close>








section \<open>The spin waiter\<close>

lemma duration_cast_ms_less:
  "duration_cast_ms d < update_rate_ms \<longleftrightarrow> d < 100000000"
proof (cases "0 \<le> d")
  case True
  then have "duration_cast_ms d = d div 1000000"
    by (cases "d = 0") (simp_all add: duration_cast_ms_def)
  then show ?thesis
    by (simp add: update_rate_ms_def) linarith
next
  case False
  then have "duration_cast_ms d \<le> 0"
    by (simp add: duration_cast_ms_def)
  with False show ?thesis
    by (simp add: update_rate_ms_def)
qed

lemma printf_render_spinner:
  "printf_render lib [CHR ''%'', CHR ''*'', CHR ''s'', CHR ''%'', CHR ''c'', CR]
       [AInt (uint p), AStr [], AInt (of_char g)]
     = Some (spaces (unat p) @ [g, CR])"
  by (simp add: printf_render_width_string justify_padding printf_render.simps(2) conversion_specification_def spelt_out_def
        parse_directive_def parse_precision_def parse_conversion_def convert_def take_int_def
        convert_s_def justify_def CR_def printf_render_text)

lemma unat_next_sequence:
  "unat (word_of_nat (Suc (unat s) mod 4) :: 8 word) = Suc (unat s) mod 4"
proof -
  have "Suc (unat s) mod 4 < 256"
    by (rule less_trans [of _ 4]) simp_all
  then show ?thesis
    by (simp add: unat_of_nat take_bit_nat_eq_self)
qed

lemma spin_waiter_update_skip:
  "now1 - last_update_time sw < 100000000 \<Longrightarrow> spin_waiter_update lib sw now1 now2 w = Inr (sw, w)"
  by (simp add: spin_waiter_update_def duration_cast_ms_less)

lemma spin_waiter_update_draw:
  assumes "100000000 \<le> now1 - last_update_time sw"
  shows "spin_waiter_update lib sw now1 now2 w =
     Inr (sw\<lparr>sequence := word_of_nat ((unat (sequence sw) + 1) mod 4), last_update_time := now2\<rparr>,
          w\<lparr>console_out := console_out w
               @ [(console_attr w,
                   spaces (unat (logger_padding w))
                     @ [animation ! ((unat (sequence sw) + 1) mod 4), CR])]\<rparr>)"
proof -
  have len: "length animation = 4"
    by (simp add: animation_def)
  from assms have "\<not> duration_cast_ms (now1 - last_update_time sw) < update_rate_ms"
    by (simp add: duration_cast_ms_less)
  then show ?thesis
    by (simp add: spin_waiter_update_def Let_def len unat_next_sequence printf_def
          printf_render_spinner)
qed

lemma animation_not_LF: "k < 4 \<Longrightarrow> animation ! k \<noteq> LF"
proof -
  assume "k < 4"
  then have "k = 0 \<or> k = 1 \<or> k = 2 \<or> k = 3" by arith
  then show "animation ! k \<noteq> LF"
    by (auto simp: animation_def LF_def)
qed

lemma animation_backslash: "j < 4 \<Longrightarrow> animation ! j = CHR 0x5C \<longleftrightarrow> j = 0"
proof -
  assume "j < 4"
  then have "j = 0 \<or> j = 1 \<or> j = 2 \<or> j = 3" by arith
  then show ?thesis
    by (auto simp: animation_def)
qed

text \<open>
  Claim C5. The clock reading \<open>now1\<close> is compared with \<open>last_update_time\<close> (set by the
  constructor and by every redraw). Less than 100 ms later, \<open>update\<close> returns with the
  widget and the console unchanged: nothing written, same sequence index, same time
  stamp. Otherwise the index becomes the old one plus 1 modulo 4, which is in 0..3, and
  one line is written: the padding, the glyph at the new index and a carriage return,
  with no newline in it; the time stamp becomes the second clock reading.
\<close>

theorem spin_waiter_update_rate_limited:
  "(now1 - last_update_time sw < 100000000
      \<longrightarrow> spin_waiter_update lib sw now1 now2 w = Inr (sw, w))
   \<and> (100000000 \<le> now1 - last_update_time sw
      \<longrightarrow> (\<exists>s line.
            spin_waiter_update lib sw now1 now2 w =
              Inr (sw\<lparr>sequence := s, last_update_time := now2\<rparr>,
                   w\<lparr>console_out := console_out w @ [(console_attr w, line)]\<rparr>)
            \<and> unat s = (unat (sequence sw) + 1) mod 4 \<and> unat s < 4
            \<and> line = spaces (unat (logger_padding w)) @ [animation ! unat s, CR]
            \<and> LF \<notin> set line))"
proof (intro conjI impI)
  assume "now1 - last_update_time sw < 100000000"
  then show "spin_waiter_update lib sw now1 now2 w = Inr (sw, w)"
    by (rule spin_waiter_update_skip)
next
  assume late: "100000000 \<le> now1 - last_update_time sw"
  let ?k = "(unat (sequence sw) + 1) mod 4"
  let ?s = "word_of_nat ?k :: 8 word"
  let ?line = "spaces (unat (logger_padding w)) @ [animation ! ?k, CR]"
  have k: "unat ?s = ?k"
    using unat_next_sequence [of "sequence sw"] by simp
  have "?k < 4" by simp
  then have "animation ! ?k \<noteq> LF"
    by (rule animation_not_LF)
  then have "LF \<notin> set ?line"
    by (auto simp: spaces_def LF_def CR_def)
  with late k show "\<exists>s line.
      spin_waiter_update lib sw now1 now2 w =
        Inr (sw\<lparr>sequence := s, last_update_time := now2\<rparr>,
             w\<lparr>console_out := console_out w @ [(console_attr w, line)]\<rparr>)
      \<and> unat s = (unat (sequence sw) + 1) mod 4 \<and> unat s < 4
      \<and> line = spaces (unat (logger_padding w)) @ [animation ! unat s, CR]
      \<and> LF \<notin> set line"
    by (intro exI [of _ ?s] exI [of _ ?line]) (simp add: spin_waiter_update_draw)
qed

theorem spin_waiter_update_rate_limited_witness:
  "(99999999 :: int) - last_update_time
       \<lparr>sequence = 3, last_update_time = 0, should_clear_on_release = False\<rparr> < 100000000
   \<and> spin_waiter_update sample_library
        \<lparr>sequence = 3, last_update_time = 0, should_clear_on_release = False\<rparr>
        99999999 99999999 (initial_world\<lparr>logger_sync := True, logger_padding := 4\<rparr>)
      = Inr (\<lparr>sequence = 3, last_update_time = 0, should_clear_on_release = False\<rparr>,
             initial_world\<lparr>logger_sync := True, logger_padding := 4\<rparr>)
   \<and> (100000000 :: int) \<le> 100000000 - last_update_time
       \<lparr>sequence = 3, last_update_time = 0, should_clear_on_release = False\<rparr>
   \<and> spin_waiter_update sample_library
        \<lparr>sequence = 3, last_update_time = 0, should_clear_on_release = False\<rparr>
        100000000 100000005 (initial_world\<lparr>logger_sync := True, logger_padding := 4\<rparr>)
      = Inr (\<lparr>sequence = 0, last_update_time = 100000005, should_clear_on_release = False\<rparr>,
             initial_world\<lparr>logger_sync := True, logger_padding := 4,
               console_out := [(7, ''    '' @ [CHR 0x5C, CR])]\<rparr>)"
  using spin_waiter_update_rate_limited
    [where ?now1.0 = 99999999 and ?now2.0 = 99999999 and lib = sample_library
       and sw = "\<lparr>sequence = 3, last_update_time = 0, should_clear_on_release = False\<rparr>"
       and w = "initial_world\<lparr>logger_sync := True, logger_padding := 4\<rparr>"]
    spin_waiter_update_rate_limited
    [where ?now1.0 = 100000000 and ?now2.0 = 100000005 and lib = sample_library
       and sw = "\<lparr>sequence = 3, last_update_time = 0, should_clear_on_release = False\<rparr>"
       and w = "initial_world\<lparr>logger_sync := True, logger_padding := 4\<rparr>"]
  by (simp add: initial_world_def spin_waiter_update_def Let_def
        duration_cast_ms_def update_rate_ms_def animation_def printf_def
        printf_render.simps(2) conversion_specification_def spelt_out_def printf_render_text parse_directive_def parse_precision_def
        parse_conversion_def convert_def take_int_def convert_s_def justify_def spaces_4 CR_def)

lemma spin_waiter_update_cases:
  obtains
    (skip) "spin_waiter_update lib sw ta tb w = Inr (sw, w)"
  | (draw) sw1 where
      "spin_waiter_update lib sw ta tb w =
         Inr (sw1, w\<lparr>console_out := console_out w @ [spin_frame w (unat (sequence sw) + 1)]\<rparr>)"
      "unat (sequence sw1) = (unat (sequence sw) + 1) mod 4"
proof (cases "ta - last_update_time sw < 100000000")
  case True
  then show ?thesis
    by (intro skip spin_waiter_update_skip)
next
  case False
  then have late: "100000000 \<le> ta - last_update_time sw" by simp
  show ?thesis
  proof (rule draw)
    show "spin_waiter_update lib sw ta tb w =
      Inr (sw\<lparr>sequence := word_of_nat ((unat (sequence sw) + 1) mod 4), last_update_time := tb\<rparr>,
           w\<lparr>console_out := console_out w @ [spin_frame w (unat (sequence sw) + 1)]\<rparr>)"
      using spin_waiter_update_draw [OF late] by (simp add: spin_frame_def)
    show "unat (sequence (sw\<lparr>sequence := word_of_nat ((unat (sequence sw) + 1) mod 4),
        last_update_time := tb\<rparr>)) = (unat (sequence sw) + 1) mod 4"
      using unat_next_sequence [of "sequence sw"] by simp
  qed
qed

lemma spin_frame_console_out [simp]:
  "spin_frame (w\<lparr>console_out := out\<rparr>) k = spin_frame w k"
  by (simp add: spin_frame_def)

lemma spin_frame_mod [simp]: "spin_frame w (Suc (a mod 4 + b)) = spin_frame w (Suc (a + b))"
proof -
  have "(a mod 4 + Suc b) mod 4 = (a + Suc b) mod 4"
    by (rule mod_add_left_eq)
  then show ?thesis
    by (simp add: spin_frame_def)
qed

text \<open>
  Any number of calls, redrawing or not: the frames written are those of the indices
  that follow the starting one, in order.
\<close>

lemma spin_waiter_updates_frames:
  "unat (sequence sw) < 4 \<Longrightarrow>
   \<exists>sw' n. n \<le> length ts
     \<and> spin_waiter_updates lib sw ts w =
         Inr (sw', w\<lparr>console_out := console_out w
                @ map (\<lambda>k. spin_frame w (unat (sequence sw) + Suc k)) [0..<n]\<rparr>)
     \<and> unat (sequence sw') = (unat (sequence sw) + n) mod 4"
proof (induction ts arbitrary: sw w)
  case Nil
  then show ?case
    by (intro exI [of _ sw] exI [of _ 0]) simp
next
  case (Cons t ts)
  show ?case
  proof (cases rule: spin_waiter_update_cases
      [where sw = sw and ta = "fst t" and tb = "snd t" and w = w and lib = lib])
    case skip
    from Cons.IH [OF Cons.prems, of w] obtain sw' n where
      "n \<le> length ts"
      "spin_waiter_updates lib sw ts w =
         Inr (sw', w\<lparr>console_out := console_out w
                @ map (\<lambda>k. spin_frame w (unat (sequence sw) + Suc k)) [0..<n]\<rparr>)"
      "unat (sequence sw') = (unat (sequence sw) + n) mod 4"
      by blast
    with skip show ?thesis
      by (intro exI [of _ sw'] exI [of _ n]) simp
  next
    case (draw sw1)
    let ?s = "unat (sequence sw)"
    let ?w1 = "w\<lparr>console_out := console_out w @ [spin_frame w (?s + 1)]\<rparr>"
    have "unat (sequence sw1) < 4"
      by (simp add: draw(2))
    from Cons.IH [OF this, of ?w1] obtain sw' n where n: "n \<le> length ts"
      and run: "spin_waiter_updates lib sw1 ts ?w1 =
         Inr (sw', ?w1\<lparr>console_out := console_out ?w1
                @ map (\<lambda>k. spin_frame ?w1 (unat (sequence sw1) + Suc k)) [0..<n]\<rparr>)"
      and seq: "unat (sequence sw') = (unat (sequence sw1) + n) mod 4"
      by blast
    have frames: "map (\<lambda>k. spin_frame w (?s + Suc k)) [0..<Suc n] =
        spin_frame w (?s + 1) # map (\<lambda>k. spin_frame ?w1 (unat (sequence sw1) + Suc k)) [0..<n]"
      by (simp add: map_upt_Suc draw(2) del: upt_Suc)
    have "unat (sequence sw') = (?s + Suc n) mod 4"
      using seq by (simp add: draw(2) mod_add_left_eq)
    moreover have "spin_waiter_updates lib sw (t # ts) w =
        Inr (sw', w\<lparr>console_out := console_out w
               @ map (\<lambda>k. spin_frame w (?s + Suc k)) [0..<Suc n]\<rparr>)"
    proof -
      have "spin_waiter_updates lib sw (t # ts) w = spin_waiter_updates lib sw1 ts ?w1"
        by (simp add: draw(1))
      also note run
      also have "?w1\<lparr>console_out := console_out ?w1
            @ map (\<lambda>k. spin_frame ?w1 (unat (sequence sw1) + Suc k)) [0..<n]\<rparr> =
          w\<lparr>console_out := console_out w
            @ map (\<lambda>k. spin_frame w (?s + Suc k)) [0..<Suc n]\<rparr>"
        by (subst frames) simp
      finally show ?thesis .
    qed
    ultimately show ?thesis
      using n by (intro exI [of _ sw'] exI [of _ "Suc n"]) simp
  qed
qed

text \<open>
  Claim C10. A spin waiter fresh from its constructor has sequence index 0. After any
  calls of \<open>update\<close>, of which \<open>n\<close> redrew, the console has received \<open>n\<close> frames and
  nothing else: frame number \<open>k + 1\<close> shows the glyph at index \<open>(k + 1) mod 4\<close>, so
  the indices run 1, 2, 3, 0, 1, ... and the index ends at \<open>n mod 4\<close>. The first frame
  shows \<^verbatim>\<open>|\<close>; the backslash, at index 0, is shown by exactly the frames whose number is
  a multiple of four.
\<close>

theorem spin_waiter_frames_start_at_one:
  assumes "spin_waiter_ctor clear now w0 = Inr (sw0, w)"
  shows "sequence sw0 = 0
    \<and> (\<exists>sw' n. n \<le> length ts
         \<and> spin_waiter_updates lib sw0 ts w =
             Inr (sw', w\<lparr>console_out := console_out w
                    @ map (\<lambda>k. (console_attr w,
                                 spaces (unat (logger_padding w))
                                   @ [animation ! (Suc k mod 4), CR])) [0..<n]\<rparr>)
         \<and> unat (sequence sw') = n mod 4)
    \<and> animation ! (Suc 0 mod 4) = CHR ''|''
    \<and> (\<forall>k. animation ! (Suc k mod 4) = CHR 0x5C \<longleftrightarrow> 4 dvd Suc k)"
proof -
  from assms have fresh: "sequence sw0 = 0"
    by (auto simp: spin_waiter_ctor_def split: if_splits)
  then have "unat (sequence sw0) < 4" by simp
  from spin_waiter_updates_frames [OF this, where ts = ts and w = w and lib = lib] fresh
  have "\<exists>sw' n. n \<le> length ts
         \<and> spin_waiter_updates lib sw0 ts w =
             Inr (sw', w\<lparr>console_out := console_out w
                    @ map (\<lambda>k. (console_attr w,
                                 spaces (unat (logger_padding w))
                                   @ [animation ! (Suc k mod 4), CR])) [0..<n]\<rparr>)
         \<and> unat (sequence sw') = n mod 4"
    by (simp add: spin_frame_def)
  moreover have "animation ! (Suc k mod 4) = CHR 0x5C \<longleftrightarrow> 4 dvd Suc k" for k
    using animation_backslash [of "Suc k mod 4"] by (simp add: dvd_eq_mod_eq_0)
  moreover have "animation ! (Suc 0 mod 4) = CHR ''|''"
    by (simp add: animation_def)
  ultimately show ?thesis
    using fresh by blast
qed

theorem spin_waiter_frames_start_at_one_witness:
  "spin_waiter_ctor False 0 initial_world =
     Inr (\<lparr>sequence = 0, last_update_time = 0, should_clear_on_release = False\<rparr>,
          initial_world\<lparr>logger_sync := True\<rparr>)
   \<and> spin_waiter_updates sample_library
        \<lparr>sequence = 0, last_update_time = 0, should_clear_on_release = False\<rparr>
        [(100000000, 100000000), (150000000, 150000000), (200000000, 200000000),
         (300000000, 300000000), (400000000, 400000000), (500000000, 500000000)]
        (initial_world\<lparr>logger_sync := True\<rparr>) =
     Inr (\<lparr>sequence = 1, last_update_time = 500000000, should_clear_on_release = False\<rparr>,
          initial_world\<lparr>logger_sync := True,
            console_out := [(7, [CHR ''|'', CR]), (7, [CHR ''/'', CR]), (7, [CHR 0xC4, CR]),
                            (7, [CHR 0x5C, CR]), (7, [CHR ''|'', CR])]\<rparr>)"
  using spin_waiter_frames_start_at_one
    [where clear = False and now = 0 and ?w0.0 = initial_world and lib = sample_library
       and ?sw0.0 = "\<lparr>sequence = 0, last_update_time = 0, should_clear_on_release = False\<rparr>"
       and w = "initial_world\<lparr>logger_sync := True\<rparr>"
       and ts = "[(100000000, 100000000), (150000000, 150000000), (200000000, 200000000),
         (300000000, 300000000), (400000000, 400000000), (500000000, 500000000)]"]
  by (simp add: spin_waiter_ctor_def initial_world_def spin_waiter_update_def Let_def
        duration_cast_ms_def update_rate_ms_def animation_def printf_def
        printf_render.simps(2) conversion_specification_def spelt_out_def printf_render_text parse_directive_def parse_precision_def
        parse_conversion_def convert_def take_int_def convert_s_def justify_def spaces_def CR_def)



end
